theory Spec2Isabelle
  imports Main "HOL-Library.Sublist" "HOL-Library.AList" "HOL-Library.Char_ord"
    "HOL-Library.List_Lexorder"
begin

section \<open>Data model of pkg/skaffold/docker/parse.go\<close>

text \<open>
  A \<open>parser.Node\<close> of the Dockerfile parser, restricted to the fields parse.go reads:
  \<open>Value\<close>, the \<open>Next\<close> pointer (nil is \<open>None\<close>) and \<open>Flags\<close>. A parsed
  file (\<open>Result.AST.Children\<close>) is a list of such nodes, one per instruction.
\<close>

datatype node = Node (Value: string) (Next: "node option") (Flags: "string list")

text \<open>
  Go errors are opaque values produced by the collaborators; \<open>errors.Wrap\<close> and
  \<open>errors.Wrapf\<close> put a message around one.
\<close>

datatype error = ExternalError string | Wrap error string

text \<open>
  A Go call either returns or panics. The only panics of parse.go are nil-pointer
  dereferences of \<open>value.Next\<close> and \<open>value.Next.Next\<close>.
\<close>

datatype 'a go = Panic | Return 'a

text \<open>The part of \<open>v1.ConfigFile\<close> that is read: \<open>Config.ExposedPorts\<close> (the keys of
  the Go map, in the order its iteration yields them) and \<open>Config.OnBuild\<close>.\<close>

record ConfigFile =
  ExposedPorts :: "string list"
  OnBuild :: "string list"

text \<open>
  The collaborators parse.go calls and that are not part of it. \<open>'w\<close> is the state
  that image lookups read and change (the image cache, the docker daemon, the registry).
  \<^item> \<open>fsOpen\<close>: \<open>util.Fs.Open\<close>, giving the content of the file;
  \<^item> \<open>parse\<close>: \<open>parser.Parse\<close>, giving \<open>AST.Children\<close>;
  \<^item> \<open>ProcessWord\<close>: \<open>shell.Lex.ProcessWord\<close> with escape token backslash;
  \<^item> \<open>pathJoin\<close>, \<open>filepathJoin\<close>, \<open>filepathAbs\<close>: \<open>path.Join\<close>,
    \<open>filepath.Join\<close>, \<open>filepath.Abs\<close>;
  \<^item> \<open>ExpandPaths\<close>: \<open>util.ExpandPaths\<close>;
  \<^item> \<open>statIsNotExist\<close>: \<open>os.IsNotExist\<close> of the error of \<open>util.Fs.Stat\<close>;
  \<^item> \<open>ReadAll\<close>: \<open>dockerignore.ReadAll\<close>; \<open>Matches\<close>: \<open>fileutils.Matches\<close>;
  \<^item> \<open>RetrieveImage\<close>: the variable \<open>RetrieveImage\<close>.
\<close>

record 'w collaborators =
  fsOpen :: "string \<Rightarrow> error + string"
  parse :: "string \<Rightarrow> error + node list"
  ProcessWord :: "string \<Rightarrow> string list \<Rightarrow> error + string"
  pathJoin :: "string \<Rightarrow> string \<Rightarrow> string"
  filepathJoin :: "string \<Rightarrow> string \<Rightarrow> string"
  filepathAbs :: "string \<Rightarrow> error + string"
  ExpandPaths :: "string \<Rightarrow> string list \<Rightarrow> error + string list"
  statIsNotExist :: "string \<Rightarrow> bool"
  ReadAll :: "string \<Rightarrow> error + string list"
  Matches :: "string \<Rightarrow> string list \<Rightarrow> error + bool"
  RetrieveImage :: "'w \<Rightarrow> string \<Rightarrow> (error + ConfigFile) \<times> 'w"

section \<open>Instruction keywords and string helpers\<close>

definition add :: string where "add = ''add''"
definition copy :: string where "copy = ''copy''"
definition env :: string where "env = ''env''"
definition from_instr :: string where "from_instr = ''from''"
definition expose :: string where "expose = ''expose''"

text \<open>\<open>strings.HasPrefix s p\<close>.\<close>

definition HasPrefix :: "string \<Rightarrow> string \<Rightarrow> bool" where
  "HasPrefix s p = prefix p s"

section \<open>ADD and COPY\<close>

fun hasMultiStageFlag :: "string list \<Rightarrow> bool" where
  "hasMultiStageFlag [] = False"
| "hasMultiStageFlag (f # flags) =
     (if HasPrefix f ''--from='' then True else hasMultiStageFlag flags)"

text \<open>
  \<open>processShellWord\<close>: the environment table is an association list with one entry per
  name (the Go map; the order of the list stands for the order in which the map is
  iterated), turned into \<open>name=value\<close> strings for the lexer.
\<close>

definition processShellWord ::
  "'w collaborators \<Rightarrow> string \<Rightarrow> (string \<times> string) list \<Rightarrow> error + string" where
  "processShellWord X word envs =
     ProcessWord X word (map (\<lambda>(envKey, envVal). envKey @ ''='' @ envVal) envs)"

text \<open>
  \<open>processCopy\<close>. The set \<open>paths\<close> is mutated in place, so the paths added before an
  error is returned stay in it: the model returns the set together with the error.
  The loop variable \<open>value\<close> moves along the \<open>Next\<close> chain.
\<close>

fun processCopy ::
  "'w collaborators \<Rightarrow> string \<Rightarrow> node \<Rightarrow> string list \<Rightarrow> (string \<times> string) list
     \<Rightarrow> (string list \<times> error option) go" where
  "processCopy X workspace (Node v None fl) paths envs = Panic"
| "processCopy X workspace (Node v (Some (Node v1 None fl1)) fl) paths envs =
     Return (paths, None)"
| "processCopy X workspace (Node v (Some (Node v1 (Some n2) fl1)) fl) paths envs =
     (if HasPrefix (Value n2) ''#'' then Return (paths, None)
      else case processShellWord X v1 envs of
        Inl err \<Rightarrow> Return (paths, Some (Wrap err ''processing word''))
      | Inr src \<Rightarrow>
          if hasMultiStageFlag fl then Return (paths, None)
          else processCopy X workspace (Node v1 (Some n2) fl1)
                 (if \<not> HasPrefix src ''http://'' \<and> \<not> HasPrefix src ''https://''
                  then List.insert (pathJoin X workspace src) paths else paths)
                 envs)"

section \<open>Dispatch of instructions\<close>

text \<open>
  The closure \<open>dispatchInstructions\<close> of \<open>GetDockerfileDependencies\<close>, over the
  captured \<open>workspace\<close>, \<open>depMap\<close> and \<open>envs\<close>. It has no result: the error that
  \<open>processCopy\<close> returns is not looked at. \<open>envs[k] = v\<close> is \<open>AList.update\<close>.
\<close>

fun dispatchInstructions ::
  "'w collaborators \<Rightarrow> string \<Rightarrow> node list \<Rightarrow> string list \<times> (string \<times> string) list
     \<Rightarrow> (string list \<times> (string \<times> string) list) go" where
  "dispatchInstructions X workspace [] st = Return st"
| "dispatchInstructions X workspace (value # rest) (depMap, envs) =
     (if Value value = add \<or> Value value = copy then
        (case processCopy X workspace value depMap envs of
           Panic \<Rightarrow> Panic
         | Return (depMap', err) \<Rightarrow> dispatchInstructions X workspace rest (depMap', envs))
      else if Value value = env then
        (case Next value of
           None \<Rightarrow> Panic
         | Some n1 \<Rightarrow>
             (case Next n1 of
                None \<Rightarrow> Panic
              | Some n2 \<Rightarrow>
                  dispatchInstructions X workspace rest
                    (depMap, AList.update (Value n1) (Value n2) envs)))
      else dispatchInstructions X workspace rest (depMap, envs))"

section \<open>Base images\<close>

text \<open>
  \<open>strings.ToLower\<close> on the bytes of the string: the ASCII capitals are lowered. No
  other rune is lowered to a letter of \<open>scratch\<close>, the only word the result is
  compared with.
\<close>

definition toLowerByte :: "char \<Rightarrow> char" where
  "toLowerByte c =
     (if 65 \<le> (of_char c :: nat) \<and> (of_char c :: nat) \<le> 90
      then char_of ((of_char c :: nat) + 32) else c)"

definition ToLower :: "string \<Rightarrow> string" where
  "ToLower s = map toLowerByte s"

text \<open>\<open>processBaseImage\<close> returns the pair of Go results: a nil slice with the error,
  or the triggers with no error.\<close>

definition processBaseImage ::
  "'w collaborators \<Rightarrow> node \<Rightarrow> 'w \<Rightarrow> (string list \<times> error option) go \<times> 'w" where
  "processBaseImage X value w =
     (case Next value of
        None \<Rightarrow> (Panic, w)
      | Some n1 \<Rightarrow>
          (let base = Value n1 in
           if ToLower base = ''scratch'' then (Return ([], None), w)
           else (case RetrieveImage X w base of
                   (Inl err, w') \<Rightarrow> (Return ([], Some err), w')
                 | (Inr img, w') \<Rightarrow> (Return (OnBuild img, None), w'))))"

text \<open>The first loop of \<open>GetDockerfileDependencies\<close>: an error of
  \<open>processBaseImage\<close> is logged, and its (nil) slice is appended all the same.\<close>

fun collectOnbuilds ::
  "'w collaborators \<Rightarrow> node list \<Rightarrow> string list list \<Rightarrow> 'w
     \<Rightarrow> (string list list) go \<times> 'w" where
  "collectOnbuilds X [] onbuildsImages w = (Return onbuildsImages, w)"
| "collectOnbuilds X (value # rest) onbuildsImages w =
     (if Value value = from_instr then
        (case processBaseImage X value w of
           (Panic, w') \<Rightarrow> (Panic, w')
         | (Return (onbuilds, err), w') \<Rightarrow>
             collectOnbuilds X rest (onbuildsImages @ [onbuilds]) w')
      else collectOnbuilds X rest onbuildsImages w)"

text \<open>The loops over the images and over the triggers of one image: each trigger is
  parsed on its own and dispatched; a parse error is returned as it is.\<close>

fun replayImage ::
  "'w collaborators \<Rightarrow> string \<Rightarrow> string list \<Rightarrow> string list \<times> (string \<times> string) list
     \<Rightarrow> (error + string list \<times> (string \<times> string) list) go" where
  "replayImage X workspace [] st = Return (Inr st)"
| "replayImage X workspace (ob # obs) st =
     (case parse X ob of
        Inl err \<Rightarrow> Return (Inl err)
      | Inr obRes \<Rightarrow>
          (case dispatchInstructions X workspace obRes st of
             Panic \<Rightarrow> Panic
           | Return st' \<Rightarrow> replayImage X workspace obs st'))"

fun replayOnbuilds ::
  "'w collaborators \<Rightarrow> string \<Rightarrow> string list list \<Rightarrow> string list \<times> (string \<times> string) list
     \<Rightarrow> (error + string list \<times> (string \<times> string) list) go" where
  "replayOnbuilds X workspace [] st = Return (Inr st)"
| "replayOnbuilds X workspace (img # images) st =
     (case replayImage X workspace img st of
        Panic \<Rightarrow> Panic
      | Return (Inl err) \<Rightarrow> Return (Inl err)
      | Return (Inr st') \<Rightarrow> replayOnbuilds X workspace images st')"

section \<open>Ignore filter\<close>

text \<open>
  Modelled from the spec: \<open>util.RelPathToAbsPath\<close> is not in src/. The spec has the
  filter convert all candidate paths and all exclusion patterns to a common absolute-path
  representation: each path in turn through \<open>filepath.Abs\<close>, the first failure being the
  failure of the whole conversion.
\<close>

fun RelPathToAbsPath :: "'w collaborators \<Rightarrow> string list \<Rightarrow> error + string list" where
  "RelPathToAbsPath X [] = Inr []"
| "RelPathToAbsPath X (relPath # relPaths) =
     (case filepathAbs X relPath of
        Inl err \<Rightarrow> Inl err
      | Inr a \<Rightarrow>
          (case RelPathToAbsPath X relPaths of
             Inl err \<Rightarrow> Inl err
           | Inr absPath \<Rightarrow> Inr (a # absPath)))"

text \<open>The filtering loop of \<open>ApplyDockerIgnore\<close>.\<close>

fun filterDeps ::
  "'w collaborators \<Rightarrow> string list \<Rightarrow> string list \<Rightarrow> string list \<Rightarrow> error + string list" where
  "filterDeps X absPathExcludes [] filteredDeps = Inr filteredDeps"
| "filterDeps X absPathExcludes (d # ds) filteredDeps =
     (case Matches X d absPathExcludes of
        Inl err \<Rightarrow> Inl err
      | Inr m \<Rightarrow>
          filterDeps X absPathExcludes ds (if \<not> m then filteredDeps @ [d] else filteredDeps))"

text \<open>The exclusion patterns: none when the ignore file does not exist, otherwise the
  ones read from it followed by \<open>.dockerignore\<close>.\<close>

definition readExcludes :: "'w collaborators \<Rightarrow> string \<Rightarrow> error + string list" where
  "readExcludes X dockerIgnorePath =
     (if \<not> statIsNotExist X dockerIgnorePath then
        (case fsOpen X dockerIgnorePath of
           Inl err \<Rightarrow> Inl err
         | Inr r \<Rightarrow>
             (case ReadAll X r of
                Inl err \<Rightarrow> Inl err
              | Inr excludes \<Rightarrow> Inr (excludes @ [''.dockerignore''])))
      else Inr [])"

text \<open>\<open>sort.Strings\<close> is \<open>sort\<close> in the lexicographic order of the bytes.\<close>

definition ApplyDockerIgnore ::
  "'w collaborators \<Rightarrow> string list \<Rightarrow> string \<Rightarrow> error + string list" where
  "ApplyDockerIgnore X paths dockerIgnorePath =
     (case RelPathToAbsPath X paths of
        Inl err \<Rightarrow> Inl (Wrap err ''getting absolute path of dependencies'')
      | Inr absPaths \<Rightarrow>
          (case readExcludes X dockerIgnorePath of
             Inl err \<Rightarrow> Inl err
           | Inr excludes \<Rightarrow>
               (case RelPathToAbsPath X excludes of
                  Inl err \<Rightarrow> Inl (Wrap err ''getting absolute path of docker ignored paths'')
                | Inr absPathExcludes \<Rightarrow>
                    (case filterDeps X absPathExcludes absPaths [] of
                       Inl err \<Rightarrow> Inl err
                     | Inr filteredDeps \<Rightarrow> Inr (sort filteredDeps)))))"

section \<open>Dependencies of a Dockerfile\<close>

text \<open>
  Modelled from the spec: \<open>util.StrSliceContains\<close> is not in src/. The spec adds the
  instruction file's own path to a set of paths: the path is appended unless the list
  has it already.
\<close>

definition StrSliceContains :: "string list \<Rightarrow> string \<Rightarrow> bool" where
  "StrSliceContains sl s = (s \<in> set sl)"

text \<open>The end of \<open>GetDockerfileDependencies\<close>, from the dependency set on.\<close>

definition finishDependencies ::
  "'w collaborators \<Rightarrow> string \<Rightarrow> string \<Rightarrow> string list \<Rightarrow> error + string list" where
  "finishDependencies X workspace path deps =
     (case ExpandPaths X workspace deps of
        Inl err \<Rightarrow> Inl (Wrap err ''expanding dockerfile paths'')
      | Inr expandedDeps \<Rightarrow>
          (case ApplyDockerIgnore X
                  (if \<not> StrSliceContains expandedDeps path then expandedDeps @ [path]
                   else expandedDeps)
                  (filepathJoin X workspace ''.dockerignore'') of
             Inl err \<Rightarrow> Inl (Wrap err ''applying dockerignore'')
           | Inr filteredDeps \<Rightarrow> Inr filteredDeps))"

text \<open>The two dispatch passes: all triggers, then the file itself, from the empty
  dependency set and environment table.\<close>

definition dispatchAll ::
  "'w collaborators \<Rightarrow> string \<Rightarrow> string list list \<Rightarrow> node list
     \<Rightarrow> (error + string list \<times> (string \<times> string) list) go" where
  "dispatchAll X workspace onbuildsImages children =
     (case replayOnbuilds X workspace onbuildsImages ([], []) of
        Panic \<Rightarrow> Panic
      | Return (Inl err) \<Rightarrow> Return (Inl err)
      | Return (Inr st) \<Rightarrow>
          (case dispatchInstructions X workspace children st of
             Panic \<Rightarrow> Panic
           | Return st' \<Rightarrow> Return (Inr st')))"

definition GetDockerfileDependencies ::
  "'w collaborators \<Rightarrow> string \<Rightarrow> string \<Rightarrow> 'w \<Rightarrow> (error + string list) go \<times> 'w" where
  "GetDockerfileDependencies X dockerfilePath workspace w =
     (let path = filepathJoin X workspace dockerfilePath in
      case fsOpen X path of
        Inl err \<Rightarrow> (Return (Inl (Wrap err (''opening dockerfile: '' @ path))), w)
      | Inr f \<Rightarrow>
          (case parse X f of
             Inl err \<Rightarrow> (Return (Inl (Wrap err ''parsing dockerfile'')), w)
           | Inr children \<Rightarrow>
               (case collectOnbuilds X children [] w of
                  (Panic, w') \<Rightarrow> (Panic, w')
                | (Return onbuildsImages, w') \<Rightarrow>
                    (case dispatchAll X workspace onbuildsImages children of
                       Panic \<Rightarrow> (Panic, w')
                     | Return (Inl err) \<Rightarrow> (Return (Inl err), w')
                     | Return (Inr (depMap, envs)) \<Rightarrow>
                         (Return (finishDependencies X workspace path depMap), w')))))"

section \<open>Ports\<close>

text \<open>The inner loop of the \<open>expose\<close> case: the values of the nodes after the keyword.\<close>

fun exposedPorts :: "node \<Rightarrow> string list" where
  "exposedPorts (Node v None fl) = []"
| "exposedPorts (Node v (Some n) fl) = Value n # exposedPorts n"

fun portsLoop ::
  "'w collaborators \<Rightarrow> node list \<Rightarrow> string list \<Rightarrow> 'w \<Rightarrow> (string list) go \<times> 'w" where
  "portsLoop X [] ports w = (Return ports, w)"
| "portsLoop X (value # rest) ports w =
     (if Value value = from_instr then
        (case Next value of
           None \<Rightarrow> (Panic, w)
         | Some n1 \<Rightarrow>
             if ToLower (Value n1) = ''scratch'' then portsLoop X rest ports w
             else (case RetrieveImage X w (Value n1) of
                     (Inl err, w') \<Rightarrow> portsLoop X rest ports w'
                   | (Inr img, w') \<Rightarrow> portsLoop X rest (ports @ ExposedPorts img) w'))
      else if Value value = expose then portsLoop X rest (ports @ exposedPorts value) w
      else portsLoop X rest ports w)"

definition PortsFromDockerfile ::
  "'w collaborators \<Rightarrow> string \<Rightarrow> 'w \<Rightarrow> (error + string list) go \<times> 'w" where
  "PortsFromDockerfile X r w =
     (case parse X r of
        Inl err \<Rightarrow> (Return (Inl (Wrap err ''parsing dockerfile'')), w)
      | Inr children \<Rightarrow>
          (case portsLoop X children [] w of
             (Panic, w') \<Rightarrow> (Panic, w')
           | (Return ports, w') \<Rightarrow> (Return (Inr (sort ports)), w')))"

section \<open>The image cache\<close>

text \<open>
  The collaborators of \<open>retrieveImage\<close>. \<open>'d\<close> is the state of everything outside
  the process that a lookup can read or change (the docker daemon, the registry, a call
  counter of a stub), \<open>'c\<close> the docker client, \<open>'i\<close> a remote image.
  \<open>remoteImage\<close> is a function of this package that is not in src/; it is a parameter
  here.
\<close>

record ('d, 'c, 'i) providers =
  NewDockerAPIClient :: "'d \<Rightarrow> (error + 'c) \<times> 'd"
  ImageInspectWithRaw :: "'c \<Rightarrow> string \<Rightarrow> 'd \<Rightarrow> (error + string) \<times> 'd"
  Unmarshal :: "string \<Rightarrow> error + ConfigFile"
  remoteImage :: "string \<Rightarrow> 'd \<Rightarrow> (error + 'i) \<times> 'd"
  imgConfigFile :: "'i \<Rightarrow> 'd \<Rightarrow> (error + ConfigFile) \<times> 'd"

text \<open>The state of a process: the package variable \<open>imageCache\<close> (a \<open>sync.Map\<close>) and
  the outside.\<close>

record 'd world =
  imageCache :: "string \<rightharpoonup> ConfigFile"
  outside :: 'd

definition retrieveLocalImage ::
  "('d, 'c, 'i) providers \<Rightarrow> 'c \<Rightarrow> string \<Rightarrow> 'd \<Rightarrow> (error + string) \<times> 'd" where
  "retrieveLocalImage P client img d =
     (case ImageInspectWithRaw P client img d of
        (Inl err, d') \<Rightarrow> (Inl err, d')
      | (Inr raw, d') \<Rightarrow> (Inr raw, d'))"

definition retrieveRemoteConfig ::
  "('d, 'c, 'i) providers \<Rightarrow> string \<Rightarrow> 'd \<Rightarrow> (error + ConfigFile) \<times> 'd" where
  "retrieveRemoteConfig P identifier d =
     (case remoteImage P identifier d of
        (Inl err, d') \<Rightarrow> (Inl (Wrap err ''getting image''), d')
      | (Inr img, d') \<Rightarrow> imgConfigFile P img d')"

definition retrieveImage ::
  "('d, 'c, 'i) providers \<Rightarrow> string \<Rightarrow> 'd world \<Rightarrow> (error + ConfigFile) \<times> 'd world" where
  "retrieveImage P img w =
     (case imageCache w img of
        Some cachedCfg \<Rightarrow> (Inr cachedCfg, w)
      | None \<Rightarrow>
          (case NewDockerAPIClient P (outside w) of
             (Inl err, d1) \<Rightarrow> (Inl err, w\<lparr>outside := d1\<rparr>)
           | (Inr client, d1) \<Rightarrow>
               (case retrieveLocalImage P client img d1 of
                  (Inr raw, d2) \<Rightarrow>
                    (case Unmarshal P raw of
                       Inl err \<Rightarrow> (Inl err, w\<lparr>outside := d2\<rparr>)
                     | Inr cfg \<Rightarrow>
                         (Inr cfg, \<lparr>imageCache = (imageCache w)(img \<mapsto> cfg), outside = d2\<rparr>))
                | (Inl localErr, d2) \<Rightarrow>
                    (case retrieveRemoteConfig P img d2 of
                       (Inl err, d3) \<Rightarrow>
                         (Inl (Wrap err ''getting remote config''), w\<lparr>outside := d3\<rparr>)
                     | (Inr cfg, d3) \<Rightarrow>
                         (Inr cfg, \<lparr>imageCache = (imageCache w)(img \<mapsto> cfg), outside = d3\<rparr>)))))"

section \<open>Instructions as the parser builds them, and stub collaborators\<close>

text \<open>An instruction with whitespace-separated arguments: the keyword node, followed
  by one node per argument; only the keyword node carries flags.\<close>

fun chain :: "string list \<Rightarrow> node option" where
  "chain [] = None"
| "chain (v # vs) = Some (Node v (chain vs) [])"

definition instruction :: "string \<Rightarrow> string list \<Rightarrow> string list \<Rightarrow> node" where
  "instruction v args fl = Node v (chain args) fl"

text \<open>
  Collaborators for concrete runs. Every file opens (its content is taken to be its
  path, so that \<open>prs\<close> decides per file and per trigger what the parser returns); the
  lexer rejects a word that opens a single quote and returns any other word as it is;
  joining puts a slash in between; the working directory is \<open>/ws\<close>; no ignore file
  exists; a pattern matches the path equal to it; no image is found, and each lookup is
  counted.
\<close>

definition stubCollaborators :: "(string \<Rightarrow> error + node list) \<Rightarrow> nat collaborators" where
  "stubCollaborators prs =
     \<lparr>fsOpen = (\<lambda>p. Inr p),
      parse = prs,
      ProcessWord = (\<lambda>word envSlice.
         if HasPrefix word [CHR 0x27] then Inl (ExternalError ''unexpected end of statement'')
         else Inr word),
      pathJoin = (\<lambda>a b. a @ ''/'' @ b),
      filepathJoin = (\<lambda>a b. a @ ''/'' @ b),
      filepathAbs = (\<lambda>p. Inr (if HasPrefix p ''/'' then p else ''/ws/'' @ p)),
      ExpandPaths = (\<lambda>workspace deps. Inr deps),
      statIsNotExist = (\<lambda>p. True),
      ReadAll = (\<lambda>r. Inr []),
      Matches = (\<lambda>d excludes. Inr (d \<in> set excludes)),
      RetrieveImage = (\<lambda>w img. (Inl (ExternalError ''no such image''), Suc w))\<rparr>"

text \<open>A parser for concrete runs: two triggers, and a file \<open>FROM base\<close>,
  \<open>ENV B 2\<close>, \<open>COPY app.go /app/\<close>, \<open>EXPOSE 8080\<close> for every other input.\<close>

definition stubParse :: "string \<Rightarrow> error + node list" where
  "stubParse r =
     (if r = ''ENV A 1'' then Inr [instruction env [''A'', ''1''] []]
      else if r = ''COPY trigger.txt /x'' then Inr [instruction copy [''trigger.txt'', ''/x''] []]
      else Inr [instruction from_instr [''base''] [], instruction env [''B'', ''2''] [],
                instruction copy [''app.go'', ''/app/''] [], instruction expose [''8080''] []])"

text \<open>The same with an ignore file that holds the given patterns.\<close>

definition stubWithIgnore ::
  "(string \<Rightarrow> error + node list) \<Rightarrow> string list \<Rightarrow> nat collaborators" where
  "stubWithIgnore prs patterns =
     (stubCollaborators prs)\<lparr>statIsNotExist := (\<lambda>p. False), ReadAll := (\<lambda>r. Inr patterns)\<rparr>"

text \<open>An ENV instruction cut after its first name and value.\<close>

fun firstPairOnly :: "node \<Rightarrow> node" where
  "firstPairOnly (Node v (Some (Node k (Some (Node val extra fl2)) fl1)) fl) =
     (if v = env then Node v (Some (Node k (Some (Node val None fl2)) fl1)) fl
      else Node v (Some (Node k (Some (Node val extra fl2)) fl1)) fl)"
| "firstPairOnly n = n"

section \<open>Notions the properties are stated with\<close>

text \<open>The argument tokens of an instruction: the values of the nodes after the
  keyword.\<close>

fun tokens :: "node \<Rightarrow> string list" where
  "tokens (Node v None fl) = []"
| "tokens (Node v (Some n) fl) = Value n # tokens n"




text \<open>An image lookup in which every failure is replaced by the success with an empty
  configuration: no port, no trigger.\<close>

definition emptyOnFailure ::
  "('w \<Rightarrow> string \<Rightarrow> (error + ConfigFile) \<times> 'w) \<Rightarrow> 'w \<Rightarrow> string \<Rightarrow> (error + ConfigFile) \<times> 'w"
  where
  "emptyOnFailure R w img =
     (case R w img of
        (Inl err, w') \<Rightarrow> (Inr \<lparr>ExposedPorts = [], OnBuild = []\<rparr>, w')
      | (Inr cfg, w') \<Rightarrow> (Inr cfg, w'))"

text \<open>
  Providers instrumented with a call counter: the outside state is paired with the
  number of lookups made so far. A lookup starts with the inspection of the local image
  (the remote registry is asked within the same lookup, when the inspection fails), so
  the counter is incremented there.
\<close>

definition counted :: "('d, 'c, 'i) providers \<Rightarrow> ('d \<times> nat, 'c, 'i) providers" where
  "counted P =
     \<lparr>NewDockerAPIClient =
        (\<lambda>(d, n). case NewDockerAPIClient P d of (res, d') \<Rightarrow> (res, (d', n))),
      ImageInspectWithRaw =
        (\<lambda>client img (d, n).
           case ImageInspectWithRaw P client img d of (res, d') \<Rightarrow> (res, (d', Suc n))),
      Unmarshal = Unmarshal P,
      remoteImage =
        (\<lambda>identifier (d, n). case remoteImage P identifier d of (res, d') \<Rightarrow> (res, (d', n))),
      imgConfigFile =
        (\<lambda>img (d, n). case imgConfigFile P img d of (res, d') \<Rightarrow> (res, (d', n)))\<rparr>"

text \<open>Providers for concrete runs: the local image is found and its configuration
  declares one port and one trigger.\<close>

definition stubProviders :: "(unit, unit, unit) providers" where
  "stubProviders =
     \<lparr>NewDockerAPIClient = (\<lambda>d. (Inr (), d)),
      ImageInspectWithRaw = (\<lambda>client img d. (Inr ''{}'', d)),
      Unmarshal =
        (\<lambda>raw. Inr \<lparr>ExposedPorts = [''8080/tcp''], OnBuild = [''COPY trigger.txt /x'']\<rparr>),
      remoteImage = (\<lambda>identifier d. (Inl (ExternalError ''unreachable''), d)),
      imgConfigFile = (\<lambda>img d. (Inl (ExternalError ''unreachable''), d))\<rparr>"

section \<open>Helper lemmas\<close>

lemma env_not_copy: "env \<noteq> add" "env \<noteq> copy"
  by (simp_all add: env_def add_def copy_def)

lemma firstPairOnly_other: "Value n \<noteq> env \<Longrightarrow> firstPairOnly n = n"
  by (cases n rule: firstPairOnly.cases) auto

lemma dispatch_firstPairOnly:
  "dispatchInstructions X workspace (map firstPairOnly children) st =
   dispatchInstructions X workspace children st"
proof (induction children arbitrary: st)
  case Nil
  show ?case by simp
next
  case (Cons n children)
  obtain depMap envs where st: "st = (depMap, envs)" by (cases st)
  show ?case
  proof (cases "Value n = env")
    case False
    then show ?thesis using Cons.IH st
      by (simp add: firstPairOnly_other split: go.splits)
  next
    case True
    then show ?thesis using Cons.IH st env_not_copy
      by (cases n rule: firstPairOnly.cases) (auto split: go.splits)
  qed
qed

lemma sort_ports: "sort [''80'', ''443'', ''8080''] = [''443'', ''80'', ''8080'']"
  by code_simp

lemma exposedPorts_chain: "exposedPorts (Node v (chain args) fl) = args"
  by (induction args arbitrary: v fl) auto

lemma ToLower_scratch: "ToLower ''scratch'' = ''scratch''"
  by code_simp

section \<open>Expansion failures\<close>

text \<open>
  C1. By the claim, a source token whose shell-word expansion fails aborts the whole
  resolution with the expansion error. In the code \<open>processCopy\<close> returns that error, but
  \<open>dispatchInstructions\<close> does not look at it. For the file \<open>FROM scratch\<close>,
  \<open>COPY 'a b /c\<close> in workspace \<open>/ws\<close>, whose first source token opens a quote
  that is never closed, the call returns the list with the path of the file and no error.
\<close>

theorem expansion_error_is_dropped:
  "GetDockerfileDependencies
     (stubCollaborators (\<lambda>r. Inr [instruction from_instr [''scratch''] [],
        instruction copy [[CHR 0x27, CHR ''a''], ''b'', ''/c''] []]))
     ''Dockerfile'' ''/ws'' 0 = (Return (Inr [''/ws/Dockerfile'']), 0)"
  by code_simp

section \<open>Stage-source flag\<close>

text \<open>
  C2. An ADD/COPY instruction that carries a flag starting with \<open>--from=\<close> adds no path
  to the dependency set, however many source tokens it has: whenever \<open>processCopy\<close>
  returns, the set is the one it was given (and it panics only when the instruction has no
  argument at all).
\<close>

theorem processCopy_multistage_adds_nothing:
  "hasMultiStageFlag (Flags value) \<Longrightarrow>
     (case processCopy X workspace value paths envs of
        Panic \<Rightarrow> Next value = None
      | Return (paths', err) \<Rightarrow> paths' = paths \<and> Next value \<noteq> None)"
  by (cases "(X, workspace, value, paths, envs)" rule: processCopy.cases)
     (auto split: sum.splits)

theorem processCopy_multistage_adds_nothing_witness:
  "hasMultiStageFlag [''--from=builder''] \<and>
   processCopy (stubCollaborators (\<lambda>r. Inr [])) ''/ws''
     (instruction copy [''a'', ''/x''] [''--from=builder'']) [''/ws/b''] [] =
   Return ([''/ws/b''], None)"
  using processCopy_multistage_adds_nothing
    [of "instruction copy [''a'', ''/x''] [''--from=builder'']" "[''/ws/b'']"
        "stubCollaborators (\<lambda>r. Inr [])" "''/ws''" "[]"]
  by (simp add: HasPrefix_def instruction_def processShellWord_def stubCollaborators_def
      copy_def)

section \<open>The port scenario\<close>

text \<open>
  C8. For the stream \<open>FROM scratch\<close>, \<open>EXPOSE 80 443\<close>, \<open>EXPOSE 8080\<close>,
  \<open>PortsFromDockerfile\<close> returns \<open>443\<close>, \<open>80\<close>, \<open>8080\<close> in this order, the
  lexicographic one, and leaves the state of the image lookups untouched: the scratch
  base is not looked up. Every token after EXPOSE is collected as it is written.
\<close>

theorem ports_scenario:
  "parse X r = Inr [instruction from_instr [''scratch''] [],
                    instruction expose [''80'', ''443''] [],
                    instruction expose [''8080''] []] \<Longrightarrow>
   PortsFromDockerfile X r w = (Return (Inr [''443'', ''80'', ''8080'']), w) \<and>
   exposedPorts (instruction expose args fl) = args"
  by (simp add: PortsFromDockerfile_def instruction_def from_instr_def expose_def
      ToLower_scratch sort_ports exposedPorts_chain)

theorem ports_scenario_witness:
  "PortsFromDockerfile
     (stubCollaborators (\<lambda>r. Inr [instruction from_instr [''scratch''] [],
                    instruction expose [''80'', ''443''] [],
                    instruction expose [''8080''] []])) ''Dockerfile'' 0
   = (Return (Inr [''443'', ''80'', ''8080'']), 0)"
  using ports_scenario [where X = "stubCollaborators (\<lambda>r. Inr [instruction from_instr [''scratch''] [],
                    instruction expose [''80'', ''443''] [],
                    instruction expose [''8080''] []])" and r = "''Dockerfile''" and w = 0]
  by (simp add: stubCollaborators_def)

section \<open>Ignore filter and the path of the instruction file\<close>

lemma RelPathToAbsPath_Inr:
  "RelPathToAbsPath X ps = Inr as \<longleftrightarrow> map (filepathAbs X) ps = map Inr as"
proof (induction ps arbitrary: as)
  case Nil
  show ?case by auto
next
  case (Cons p ps)
  show ?case
  proof (cases "filepathAbs X p")
    case (Inl e)
    then show ?thesis by (cases as) auto
  next
    case (Inr a)
    show ?thesis
    proof (cases "RelPathToAbsPath X ps")
      case (Inl e)
      with Inr Cons.IH show ?thesis by (cases as) auto
    next
      case r: (Inr bs)
      with Inr Cons.IH [of bs] Cons.IH show ?thesis by (cases as) auto
    qed
  qed
qed

lemma filterDeps_Inr:
  "filterDeps X ex ds acc = Inr r \<Longrightarrow>
     r = acc @ filter (\<lambda>d. Matches X d ex = Inr False) ds"
proof (induction ds arbitrary: acc)
  case Nil
  then show ?case by simp
next
  case (Cons d ds)
  show ?case
  proof (cases "Matches X d ex")
    case (Inl e)
    with Cons.prems show ?thesis by simp
  next
    case (Inr m)
    with Cons.prems Cons.IH [of "if \<not> m then acc @ [d] else acc"] show ?thesis
      by (cases m) auto
  qed
qed

lemma filterDeps_total:
  "\<forall>d\<in>set ds. \<exists>m. Matches X d ex = Inr m \<Longrightarrow>
     filterDeps X ex ds acc = Inr (acc @ filter (\<lambda>d. Matches X d ex = Inr False) ds)"
  by (induction ds arbitrary: acc) (auto split: sum.splits if_splits)

lemma ApplyDockerIgnore_Inr:
  assumes "ApplyDockerIgnore X paths ip = Inr result"
  shows "\<exists>absPaths excludes absEx.
           map (filepathAbs X) paths = map Inr absPaths \<and>
           readExcludes X ip = Inr excludes \<and>
           map (filepathAbs X) excludes = map Inr absEx \<and>
           result = sort (filter (\<lambda>d. Matches X d absEx = Inr False) absPaths)"
  using assms
  by (auto simp: ApplyDockerIgnore_def RelPathToAbsPath_Inr split: sum.splits
      dest!: filterDeps_Inr)

lemma ApplyDockerIgnore_run:
  assumes "map (filepathAbs X) paths = map Inr absPaths"
    and "readExcludes X ip = Inr excludes"
    and "map (filepathAbs X) excludes = map Inr absEx"
    and "\<forall>d\<in>set absPaths. \<exists>m. Matches X d absEx = Inr m"
  shows "ApplyDockerIgnore X paths ip =
           Inr (sort (filter (\<lambda>d. Matches X d absEx = Inr False) absPaths))"
proof -
  have 1: "RelPathToAbsPath X paths = Inr absPaths"
    using assms(1) by (simp add: RelPathToAbsPath_Inr)
  have 2: "RelPathToAbsPath X excludes = Inr absEx"
    using assms(3) by (simp add: RelPathToAbsPath_Inr)
  show ?thesis
    using 1 2 assms(2) filterDeps_total [OF assms(4), of "[]"]
    by (simp add: ApplyDockerIgnore_def)
qed

text \<open>
  C9. The ignore filter. (1) When the ignore file does not exist, the exclusion list is
  empty and the call succeeds with the sorted candidates that the matcher does not
  exclude (provided the conversion to absolute paths and the matcher succeed). (2) When it
  exists, the patterns read from it are followed by the pattern \<open>.dockerignore\<close>, the
  name of the ignore file, and the candidates not excluded by these are returned, sorted.
  (3) A failure to open or to read the ignore file makes the call fail. (4) Every list
  returned is sorted in the lexicographic order of strings.
\<close>

theorem ignore_filter:
  "(statIsNotExist X ip \<and> map (filepathAbs X) paths = map Inr absPaths \<and>
      (\<forall>d\<in>set absPaths. \<exists>m. Matches X d [] = Inr m) \<longrightarrow>
      ApplyDockerIgnore X paths ip =
        Inr (sort (filter (\<lambda>d. Matches X d [] = Inr False) absPaths))) \<and>
   (\<not> statIsNotExist X ip \<and> fsOpen X ip = Inr r \<and> ReadAll X r = Inr patterns \<and>
      map (filepathAbs X) paths = map Inr absPaths \<and>
      map (filepathAbs X) (patterns @ [''.dockerignore'']) = map Inr absEx \<and>
      (\<forall>d\<in>set absPaths. \<exists>m. Matches X d absEx = Inr m) \<longrightarrow>
      ApplyDockerIgnore X paths ip =
        Inr (sort (filter (\<lambda>d. Matches X d absEx = Inr False) absPaths))) \<and>
   (\<not> statIsNotExist X ip \<and>
      (fsOpen X ip = Inl err \<or> fsOpen X ip = Inr r \<and> ReadAll X r = Inl err) \<longrightarrow>
      (\<exists>err'. ApplyDockerIgnore X paths ip = Inl err')) \<and>
   (ApplyDockerIgnore X paths ip = Inr result \<longrightarrow> sorted result)"
proof (intro conjI impI)
  assume a: "statIsNotExist X ip \<and> map (filepathAbs X) paths = map Inr absPaths \<and>
      (\<forall>d\<in>set absPaths. \<exists>m. Matches X d [] = Inr m)"
  then have "readExcludes X ip = Inr []" by (simp add: readExcludes_def)
  with a show "ApplyDockerIgnore X paths ip =
        Inr (sort (filter (\<lambda>d. Matches X d [] = Inr False) absPaths))"
    by (intro ApplyDockerIgnore_run [where excludes = "[]"]) auto
next
  assume a: "\<not> statIsNotExist X ip \<and> fsOpen X ip = Inr r \<and> ReadAll X r = Inr patterns \<and>
      map (filepathAbs X) paths = map Inr absPaths \<and>
      map (filepathAbs X) (patterns @ [''.dockerignore'']) = map Inr absEx \<and>
      (\<forall>d\<in>set absPaths. \<exists>m. Matches X d absEx = Inr m)"
  then have "readExcludes X ip = Inr (patterns @ [''.dockerignore''])"
    by (simp add: readExcludes_def)
  with a show "ApplyDockerIgnore X paths ip =
        Inr (sort (filter (\<lambda>d. Matches X d absEx = Inr False) absPaths))"
    by (intro ApplyDockerIgnore_run [where excludes = "patterns @ [''.dockerignore'']"]) auto
next
  assume "\<not> statIsNotExist X ip \<and>
      (fsOpen X ip = Inl err \<or> fsOpen X ip = Inr r \<and> ReadAll X r = Inl err)"
  then have "readExcludes X ip = Inl err" by (auto simp: readExcludes_def)
  then show "\<exists>err'. ApplyDockerIgnore X paths ip = Inl err'"
    by (simp add: ApplyDockerIgnore_def split: sum.splits)
next
  assume "ApplyDockerIgnore X paths ip = Inr result"
  from ApplyDockerIgnore_Inr [OF this] show "sorted result" by auto
qed


theorem ignore_filter_witness:
  "ApplyDockerIgnore (stubCollaborators (\<lambda>r. Inr [])) [''/ws/b'', ''a'']
     ''/ws/.dockerignore'' = Inr [''/ws/a'', ''/ws/b''] \<and>
   ApplyDockerIgnore (stubWithIgnore (\<lambda>r. Inr []) [''app.go''])
     [''/ws/app.go'', ''/ws/Dockerfile'', ''.dockerignore''] ''/ws/.dockerignore'' =
     Inr [''/ws/Dockerfile''] \<and>
   sorted [''/ws/a'', ''/ws/b''] \<and>
   (\<exists>err'. ApplyDockerIgnore
      ((stubWithIgnore (\<lambda>r. Inr []) [])
         \<lparr>fsOpen := (\<lambda>p. Inl (ExternalError ''permission denied''))\<rparr>)
      [''/ws/app.go''] ''/ws/.dockerignore'' = Inl err')"
proof -
  let ?X = "stubCollaborators (\<lambda>r. Inr [])"
  let ?Y = "stubWithIgnore (\<lambda>r. Inr []) [''app.go'']"
  have h1: "statIsNotExist ?X ''/ws/.dockerignore'' \<and>
      map (filepathAbs ?X) [''/ws/b'', ''a''] = map Inr [''/ws/b'', ''/ws/a''] \<and>
      (\<forall>d\<in>set [''/ws/b'', ''/ws/a'']. \<exists>m. Matches ?X d [] = Inr m)"
    by (auto simp: stubCollaborators_def HasPrefix_def)
  have c1: "ApplyDockerIgnore ?X [''/ws/b'', ''a''] ''/ws/.dockerignore'' =
      Inr (sort (filter (\<lambda>d. Matches ?X d [] = Inr False) [''/ws/b'', ''/ws/a'']))"
    using h1 ignore_filter [where X = ?X and ip = "''/ws/.dockerignore''"
        and paths = "[''/ws/b'', ''a'']" and absPaths = "[''/ws/b'', ''/ws/a'']"]
    by blast
  have v1: "sort (filter (\<lambda>d. Matches ?X d [] = Inr False) [''/ws/b'', ''/ws/a'']) =
      [''/ws/a'', ''/ws/b'']"
    by code_simp
  have h2: "\<not> statIsNotExist ?Y ''/ws/.dockerignore'' \<and>
      fsOpen ?Y ''/ws/.dockerignore'' = Inr ''/ws/.dockerignore'' \<and>
      ReadAll ?Y ''/ws/.dockerignore'' = Inr [''app.go''] \<and>
      map (filepathAbs ?Y) [''/ws/app.go'', ''/ws/Dockerfile'', ''.dockerignore''] =
        map Inr [''/ws/app.go'', ''/ws/Dockerfile'', ''/ws/.dockerignore''] \<and>
      map (filepathAbs ?Y) ([''app.go''] @ [''.dockerignore'']) =
        map Inr [''/ws/app.go'', ''/ws/.dockerignore''] \<and>
      (\<forall>d\<in>set [''/ws/app.go'', ''/ws/Dockerfile'', ''/ws/.dockerignore''].
         \<exists>m. Matches ?Y d [''/ws/app.go'', ''/ws/.dockerignore''] = Inr m)"
    by (auto simp: stubWithIgnore_def stubCollaborators_def HasPrefix_def)
  have c2: "ApplyDockerIgnore ?Y [''/ws/app.go'', ''/ws/Dockerfile'', ''.dockerignore'']
      ''/ws/.dockerignore'' =
      Inr (sort (filter
        (\<lambda>d. Matches ?Y d [''/ws/app.go'', ''/ws/.dockerignore''] = Inr False)
        [''/ws/app.go'', ''/ws/Dockerfile'', ''/ws/.dockerignore'']))"
    using h2 ignore_filter [where X = ?Y and ip = "''/ws/.dockerignore''"
        and paths = "[''/ws/app.go'', ''/ws/Dockerfile'', ''.dockerignore'']"
        and absPaths = "[''/ws/app.go'', ''/ws/Dockerfile'', ''/ws/.dockerignore'']"
        and r = "''/ws/.dockerignore''" and patterns = "[''app.go'']"
        and absEx = "[''/ws/app.go'', ''/ws/.dockerignore'']"]
    by blast
  have v2: "sort (filter
        (\<lambda>d. Matches ?Y d [''/ws/app.go'', ''/ws/.dockerignore''] = Inr False)
        [''/ws/app.go'', ''/ws/Dockerfile'', ''/ws/.dockerignore'']) = [''/ws/Dockerfile'']"
    by code_simp
  have s: "sorted [''/ws/a'', ''/ws/b'']"
    using c1 v1 ignore_filter [where X = ?X and ip = "''/ws/.dockerignore''"
        and paths = "[''/ws/b'', ''a'']" and result = "[''/ws/a'', ''/ws/b'']",
        THEN conjunct2, THEN conjunct2, THEN conjunct2]
    by simp
  let ?Z = "(stubWithIgnore (\<lambda>r. Inr []) [])
         \<lparr>fsOpen := (\<lambda>p. Inl (ExternalError ''permission denied''))\<rparr>"
  have h3: "\<not> statIsNotExist ?Z ''/ws/.dockerignore'' \<and>
      (fsOpen ?Z ''/ws/.dockerignore'' = Inl (ExternalError ''permission denied'') \<or>
       fsOpen ?Z ''/ws/.dockerignore'' = Inr [] \<and>
       ReadAll ?Z [] = Inl (ExternalError ''permission denied''))"
    by (simp add: stubWithIgnore_def stubCollaborators_def)
  have c3: "\<exists>err'. ApplyDockerIgnore ?Z [''/ws/app.go''] ''/ws/.dockerignore'' = Inl err'"
    using h3 ignore_filter [where X = ?Z and ip = "''/ws/.dockerignore''"
        and err = "ExternalError ''permission denied''" and r = "[]"
        and paths = "[''/ws/app.go'']",
        THEN conjunct2, THEN conjunct2, THEN conjunct1]
    by blast
  show ?thesis using c1 v1 c2 v2 s c3 by simp
qed

lemma map_Inr_member:
  "map f xs = map Inr ys \<Longrightarrow> x \<in> set xs \<Longrightarrow> \<exists>a. f x = Inr a \<and> a \<in> set ys"
  by (metis (no_types, lifting) image_iff list.set_map)

text \<open>
  C4. When the resolution of an instruction file succeeds, the path of the file is among
  the candidates given to the ignore filter, and the returned list contains it (in the
  absolute form the filter returns) exactly when the matcher does not exclude it under the
  patterns of the ignore file: the path of the file is filtered like any other.
\<close>

theorem own_path_subject_to_ignore:
  assumes "GetDockerfileDependencies X dockerfilePath workspace w = (Return (Inr result), w')"
  shows "\<exists>candidates a excludes absEx.
      filepathJoin X workspace dockerfilePath \<in> set candidates \<and>
      ApplyDockerIgnore X candidates (filepathJoin X workspace ''.dockerignore'') = Inr result \<and>
      filepathAbs X (filepathJoin X workspace dockerfilePath) = Inr a \<and>
      readExcludes X (filepathJoin X workspace ''.dockerignore'') = Inr excludes \<and>
      map (filepathAbs X) excludes = map Inr absEx \<and>
      (a \<in> set result \<longleftrightarrow> Matches X a absEx = Inr False)"
proof -
  let ?path = "filepathJoin X workspace dockerfilePath"
  let ?ip = "filepathJoin X workspace ''.dockerignore''"
  from assms obtain deps where fin: "finishDependencies X workspace ?path deps = Inr result"
    by (auto simp: GetDockerfileDependencies_def Let_def split: sum.splits go.splits prod.splits)
  then obtain expandedDeps where
    app: "ApplyDockerIgnore X
            (if \<not> StrSliceContains expandedDeps ?path then expandedDeps @ [?path]
             else expandedDeps) ?ip = Inr result"
    by (auto simp: finishDependencies_def split: sum.splits)
  define candidates where
    "candidates = (if \<not> StrSliceContains expandedDeps ?path then expandedDeps @ [?path]
             else expandedDeps)"
  have mem: "?path \<in> set candidates"
    by (simp add: candidates_def StrSliceContains_def)
  from app have app': "ApplyDockerIgnore X candidates ?ip = Inr result"
    by (simp add: candidates_def)
  from ApplyDockerIgnore_Inr [OF app'] obtain absPaths excludes absEx where
    ap: "map (filepathAbs X) candidates = map Inr absPaths"
    and ex: "readExcludes X ?ip = Inr excludes"
    and ae: "map (filepathAbs X) excludes = map Inr absEx"
    and res: "result = sort (filter (\<lambda>d. Matches X d absEx = Inr False) absPaths)"
    by blast
  from map_Inr_member [OF ap mem] obtain a where
    a: "filepathAbs X ?path = Inr a" and ain: "a \<in> set absPaths"
    by blast
  have "a \<in> set result \<longleftrightarrow> Matches X a absEx = Inr False"
    using res ain by simp
  with mem app' a ex ae show ?thesis by blast
qed

theorem own_path_subject_to_ignore_witness:
  "GetDockerfileDependencies
     (stubWithIgnore (\<lambda>r. Inr [instruction from_instr [''scratch''] [],
        instruction copy [''app.go'', ''/app/''] []]) [''Dockerfile''])
     ''Dockerfile'' ''/ws'' 0 = (Return (Inr [''/ws/app.go'']), 0) \<and>
   ''/ws/Dockerfile'' \<notin> set [''/ws/app.go''] \<and>
   Matches (stubWithIgnore (\<lambda>r. Inr []) [''Dockerfile'']) ''/ws/Dockerfile''
     [''/ws/Dockerfile'', ''/ws/.dockerignore''] = Inr True"
proof -
  let ?X = "stubWithIgnore (\<lambda>r. Inr [instruction from_instr [''scratch''] [],
        instruction copy [''app.go'', ''/app/''] []]) [''Dockerfile'']"
  have run: "GetDockerfileDependencies ?X ''Dockerfile'' ''/ws'' 0 =
      (Return (Inr [''/ws/app.go'']), 0)"
    by code_simp
  have rest: "''/ws/Dockerfile'' \<notin> set [''/ws/app.go''] \<and>
      Matches (stubWithIgnore (\<lambda>r. Inr []) [''Dockerfile'']) ''/ws/Dockerfile''
        [''/ws/Dockerfile'', ''/ws/.dockerignore''] = Inr True"
    by (simp add: stubWithIgnore_def stubCollaborators_def)
  from own_path_subject_to_ignore [OF run] run rest show ?thesis by blast
qed

section \<open>Remote sources\<close>

lemma processCopy_paths:
  "processCopy X workspace value paths envs = Return (paths', err) \<Longrightarrow>
     (\<forall>p\<in>set paths'. p \<in> set paths \<or>
        (\<exists>tok src. tok \<in> set (tokens value) \<and> processShellWord X tok envs = Inr src \<and>
           \<not> HasPrefix src ''http://'' \<and> \<not> HasPrefix src ''https://'' \<and>
           p = pathJoin X workspace src))"
proof (induction X workspace "value" paths envs rule: processCopy.induct)
  case (1 X workspace v fl paths envs)
  then show ?case by simp
next
  case (2 X workspace v v1 fl1 fl paths envs)
  then show ?case by simp
next
  case (3 X workspace v v1 n2 fl1 fl paths envs)
  show ?case
  proof (cases "HasPrefix (Value n2) ''#''")
    case True
    with 3(2) show ?thesis by simp
  next
    case nc: False
    show ?thesis
    proof (cases "processShellWord X v1 envs")
      case (Inl e)
      with nc 3(2) show ?thesis by simp
    next
      case (Inr src)
      show ?thesis
      proof (cases "hasMultiStageFlag fl")
        case True
        with nc Inr 3(2) show ?thesis by simp
      next
        case nf: False
        let ?paths = "if \<not> HasPrefix src ''http://'' \<and> \<not> HasPrefix src ''https://''
                  then List.insert (pathJoin X workspace src) paths else paths"
        from nc Inr nf 3(2) have run:
          "processCopy X workspace (Node v1 (Some n2) fl1) ?paths envs = Return (paths', err)"
          by simp
        from 3(1) [OF nc Inr nf run] have ih:
          "\<forall>p\<in>set paths'. p \<in> set ?paths \<or>
             (\<exists>tok src. tok \<in> set (tokens (Node v1 (Some n2) fl1)) \<and>
                processShellWord X tok envs = Inr src \<and>
                \<not> HasPrefix src ''http://'' \<and> \<not> HasPrefix src ''https://'' \<and>
                p = pathJoin X workspace src)" .
        show ?thesis
        proof
          fix p assume "p \<in> set paths'"
          with ih have "p \<in> set ?paths \<or>
             (\<exists>tok src. tok \<in> set (tokens (Node v1 (Some n2) fl1)) \<and>
                processShellWord X tok envs = Inr src \<and>
                \<not> HasPrefix src ''http://'' \<and> \<not> HasPrefix src ''https://'' \<and>
                p = pathJoin X workspace src)" by blast
          then show "p \<in> set paths \<or>
             (\<exists>tok src. tok \<in> set (tokens (Node v (Some (Node v1 (Some n2) fl1)) fl)) \<and>
                processShellWord X tok envs = Inr src \<and>
                \<not> HasPrefix src ''http://'' \<and> \<not> HasPrefix src ''https://'' \<and>
                p = pathJoin X workspace src)"
            using Inr by (auto split: if_splits)
        qed
      qed
    qed
  qed
qed

lemma processCopy_error:
  "processCopy X workspace value paths envs = Return (paths', Some e) \<Longrightarrow>
     \<exists>tok e'. tok \<in> set (tokens value) \<and> processShellWord X tok envs = Inl e' \<and>
        e = Wrap e' ''processing word''"
proof (induction X workspace "value" paths envs rule: processCopy.induct)
  case (1 X workspace v fl paths envs)
  then show ?case by simp
next
  case (2 X workspace v v1 fl1 fl paths envs)
  then show ?case by simp
next
  case (3 X workspace v v1 n2 fl1 fl paths envs)
  show ?case
  proof (cases "processShellWord X v1 envs")
    case (Inl e')
    with 3(2) show ?thesis by (auto split: if_splits)
  next
    case (Inr src)
    with 3 show ?thesis by (fastforce split: if_splits)
  qed
qed

text \<open>
  C5. A source token whose expansion starts with \<open>http://\<close> or \<open>https://\<close> is
  skipped: \<open>processCopy\<close> goes on with the next token, the dependency set unchanged
  and no error raised. Hence every path that an ADD/COPY instruction adds to the
  dependency set is the workspace joined with the expansion of one of its tokens that is
  not remote, and the only error it returns is the failure of an expansion.
\<close>

theorem remote_sources_skipped:
  "(processShellWord X v1 envs = Inr src \<and>
      (HasPrefix src ''http://'' \<or> HasPrefix src ''https://'') \<longrightarrow>
      processCopy X workspace (Node v (Some (Node v1 (Some n2) fl1)) fl) paths envs =
        (if HasPrefix (Value n2) ''#'' \<or> hasMultiStageFlag fl then Return (paths, None)
         else processCopy X workspace (Node v1 (Some n2) fl1) paths envs)) \<and>
   (processCopy X workspace value paths envs = Return (paths', err) \<longrightarrow>
      (\<forall>p\<in>set paths'. p \<in> set paths \<or>
         (\<exists>tok s. tok \<in> set (tokens value) \<and> processShellWord X tok envs = Inr s \<and>
            \<not> HasPrefix s ''http://'' \<and> \<not> HasPrefix s ''https://'' \<and>
            p = pathJoin X workspace s)) \<and>
      (\<forall>e. err = Some e \<longrightarrow>
         (\<exists>tok e'. tok \<in> set (tokens value) \<and> processShellWord X tok envs = Inl e' \<and>
            e = Wrap e' ''processing word'')))"
proof (intro conjI impI)
  assume "processShellWord X v1 envs = Inr src \<and>
      (HasPrefix src ''http://'' \<or> HasPrefix src ''https://'')"
  then show "processCopy X workspace (Node v (Some (Node v1 (Some n2) fl1)) fl) paths envs =
        (if HasPrefix (Value n2) ''#'' \<or> hasMultiStageFlag fl then Return (paths, None)
         else processCopy X workspace (Node v1 (Some n2) fl1) paths envs)"
    by auto
next
  assume "processCopy X workspace value paths envs = Return (paths', err)"
  then show "\<forall>p\<in>set paths'. p \<in> set paths \<or>
         (\<exists>tok s. tok \<in> set (tokens value) \<and> processShellWord X tok envs = Inr s \<and>
            \<not> HasPrefix s ''http://'' \<and> \<not> HasPrefix s ''https://'' \<and>
            p = pathJoin X workspace s)"
    by (rule processCopy_paths)
next
  assume "processCopy X workspace value paths envs = Return (paths', err)"
  then show "\<forall>e. err = Some e \<longrightarrow>
         (\<exists>tok e'. tok \<in> set (tokens value) \<and> processShellWord X tok envs = Inl e' \<and>
            e = Wrap e' ''processing word'')"
    using processCopy_error by blast
qed

theorem remote_sources_skipped_witness:
  "processShellWord (stubCollaborators (\<lambda>r. Inr [])) ''https://example.com/a.tgz'' [] =
     Inr ''https://example.com/a.tgz'' \<and>
   HasPrefix ''https://example.com/a.tgz'' ''https://'' \<and>
   processCopy (stubCollaborators (\<lambda>r. Inr [])) ''/ws''
     (instruction add [''https://example.com/a.tgz'', ''app.go'', ''/app/''] []) [] [] =
   Return ([''/ws/app.go''], None)"
proof -
  let ?X = "stubCollaborators (\<lambda>r. Inr [])"
  have h: "processShellWord ?X ''https://example.com/a.tgz'' [] =
      Inr ''https://example.com/a.tgz'' \<and>
      (HasPrefix ''https://example.com/a.tgz'' ''http://'' \<or>
       HasPrefix ''https://example.com/a.tgz'' ''https://'')"
    by (simp add: processShellWord_def stubCollaborators_def HasPrefix_def)
  have step: "processCopy ?X ''/ws''
      (Node add (Some (Node ''https://example.com/a.tgz''
         (Some (Node ''app.go'' (chain [''/app/'']) [])) [])) []) [] [] =
      processCopy ?X ''/ws'' (Node ''https://example.com/a.tgz''
         (Some (Node ''app.go'' (chain [''/app/'']) [])) []) [] []"
    using h remote_sources_skipped [where X = ?X and ?v1.0 = "''https://example.com/a.tgz''"
        and envs = "[]" and src = "''https://example.com/a.tgz''" and workspace = "''/ws''"
        and v = add and ?n2.0 = "Node ''app.go'' (chain [''/app/'']) []" and ?fl1.0 = "[]"
        and fl = "[]" and paths = "[]", THEN conjunct1]
    by (simp add: HasPrefix_def)
  have rest: "processCopy ?X ''/ws'' (Node ''https://example.com/a.tgz''
         (Some (Node ''app.go'' (chain [''/app/'']) [])) []) [] [] =
      Return ([''/ws/app.go''], None)"
    by (simp add: processShellWord_def stubCollaborators_def HasPrefix_def)
  show ?thesis using h step rest by (simp add: instruction_def HasPrefix_def)
qed

section \<open>Triggers before the file\<close>

lemma dispatchInstructions_append:
  "dispatchInstructions X workspace (xs @ ys) st =
     (case dispatchInstructions X workspace xs st of
        Panic \<Rightarrow> Panic
      | Return st' \<Rightarrow> dispatchInstructions X workspace ys st')"
proof (induction xs arbitrary: st)
  case Nil
  show ?case by simp
next
  case (Cons n xs)
  obtain depMap envs where st: "st = (depMap, envs)" by (cases st)
  show ?case unfolding st
    by (simp add: Cons.IH split: go.splits option.splits prod.splits)
qed








section \<open>ENV with several pairs\<close>

text \<open>
  C10. Every ENV instruction records its first name and value only. Wherever the
  instruction stands in the list, after any instructions before it and before any
  after it, dispatching it sets that one entry in the environment table reached so far,
  whatever follows the value, and the dispatch goes on with the rest from the table so
  updated; the dependency set is left as it is. Cutting every ENV instruction of a file
  after its first pair changes nothing in the outcome of the dispatch, neither the
  dependency set nor the table that later expansions read.
\<close>

theorem env_first_pair_only:
  "dispatchInstructions X workspace (map firstPairOnly children) st =
     dispatchInstructions X workspace children st \<and>
   dispatchInstructions X workspace
     (before @ Node env (Some (Node k (Some (Node val extra fl2)) fl1)) fl # rest) st =
     (case dispatchInstructions X workspace before st of
        Panic \<Rightarrow> Panic
      | Return (depMap', envs') \<Rightarrow>
          dispatchInstructions X workspace rest (depMap', AList.update k val envs')) \<and>
   dispatchInstructions X workspace
     (Node env (Some (Node k (Some (Node val extra fl2)) fl1)) fl # rest) (depMap, envs) =
     dispatchInstructions X workspace rest (depMap, AList.update k val envs) \<and>
   dispatchInstructions X workspace
     [Node env (Some (Node k (Some (Node val extra fl2)) fl1)) fl] (depMap, envs) =
     Return (depMap, AList.update k val envs)"
proof (intro conjI)
  show "dispatchInstructions X workspace (map firstPairOnly children) st =
     dispatchInstructions X workspace children st"
    by (rule dispatch_firstPairOnly)
next
  show "dispatchInstructions X workspace
     (before @ Node env (Some (Node k (Some (Node val extra fl2)) fl1)) fl # rest) st =
     (case dispatchInstructions X workspace before st of
        Panic \<Rightarrow> Panic
      | Return (depMap', envs') \<Rightarrow>
          dispatchInstructions X workspace rest (depMap', AList.update k val envs'))"
    using env_not_copy
    by (simp add: dispatchInstructions_append split: go.splits prod.splits)
next
  show "dispatchInstructions X workspace
     (Node env (Some (Node k (Some (Node val extra fl2)) fl1)) fl # rest) (depMap, envs) =
     dispatchInstructions X workspace rest (depMap, AList.update k val envs)"
    using env_not_copy by simp
next
  show "dispatchInstructions X workspace
     [Node env (Some (Node k (Some (Node val extra fl2)) fl1)) fl] (depMap, envs) =
     Return (depMap, AList.update k val envs)"
    using env_not_copy by simp
qed

section \<open>Image lookups that fail\<close>

lemma processCopy_RetrieveImage:
  "processCopy (X\<lparr>RetrieveImage := R\<rparr>) workspace value paths envs =
   processCopy X workspace value paths envs"
  by (induction X workspace "value" paths envs rule: processCopy.induct)
     (auto simp: processShellWord_def split: sum.splits)

lemma dispatchInstructions_RetrieveImage:
  "dispatchInstructions (X\<lparr>RetrieveImage := R\<rparr>) workspace ns st =
   dispatchInstructions X workspace ns st"
proof (induction ns arbitrary: st)
  case Nil
  show ?case by simp
next
  case (Cons n ns)
  obtain depMap envs where st: "st = (depMap, envs)" by (cases st)
  show ?case unfolding st
    by (simp add: Cons.IH processCopy_RetrieveImage split: go.splits option.splits prod.splits)
qed

lemma replayImage_RetrieveImage:
  "replayImage (X\<lparr>RetrieveImage := R\<rparr>) workspace obs st = replayImage X workspace obs st"
  by (induction obs arbitrary: st)
     (simp_all add: dispatchInstructions_RetrieveImage split: sum.splits go.splits)

lemma replayOnbuilds_RetrieveImage:
  "replayOnbuilds (X\<lparr>RetrieveImage := R\<rparr>) workspace images st =
   replayOnbuilds X workspace images st"
  by (induction images arbitrary: st)
     (simp_all add: replayImage_RetrieveImage split: sum.splits go.splits)

lemma dispatchAll_RetrieveImage:
  "dispatchAll (X\<lparr>RetrieveImage := R\<rparr>) workspace images children =
   dispatchAll X workspace images children"
  by (simp add: dispatchAll_def replayOnbuilds_RetrieveImage dispatchInstructions_RetrieveImage
      cong: go.case_cong sum.case_cong)

lemma RelPathToAbsPath_RetrieveImage:
  "RelPathToAbsPath (X\<lparr>RetrieveImage := R\<rparr>) ps = RelPathToAbsPath X ps"
  by (induction ps) (simp_all cong: sum.case_cong)

lemma filterDeps_RetrieveImage:
  "filterDeps (X\<lparr>RetrieveImage := R\<rparr>) ex ds acc = filterDeps X ex ds acc"
  by (induction ds arbitrary: acc) (simp_all cong: sum.case_cong)

lemma finishDependencies_RetrieveImage:
  "finishDependencies (X\<lparr>RetrieveImage := R\<rparr>) workspace path deps =
   finishDependencies X workspace path deps"
  by (simp add: finishDependencies_def ApplyDockerIgnore_def readExcludes_def
      RelPathToAbsPath_RetrieveImage filterDeps_RetrieveImage cong: sum.case_cong)

lemma processBaseImage_emptyOnFailure:
  "processBaseImage (X\<lparr>RetrieveImage := emptyOnFailure (RetrieveImage X)\<rparr>) value w =
     (case processBaseImage X value w of
        (Panic, w') \<Rightarrow> (Panic, w')
      | (Return (onbuilds, err), w') \<Rightarrow> (Return (onbuilds, None), w'))"
  by (simp add: processBaseImage_def emptyOnFailure_def Let_def
      split: option.splits prod.splits sum.splits)

lemma collectOnbuilds_emptyOnFailure:
  "collectOnbuilds (X\<lparr>RetrieveImage := emptyOnFailure (RetrieveImage X)\<rparr>) children acc w =
   collectOnbuilds X children acc w"
proof (induction children arbitrary: acc w)
  case Nil
  show ?case by simp
next
  case (Cons n ns)
  show ?case
    by (simp add: Cons.IH processBaseImage_emptyOnFailure
        split: prod.splits go.splits)
qed

lemma emptyOnFailure_cases:
  "emptyOnFailure R w img =
     (case R w img of
        (Inl err, w') \<Rightarrow> (Inr \<lparr>ExposedPorts = [], OnBuild = []\<rparr>, w')
      | (Inr cfg, w') \<Rightarrow> (Inr cfg, w'))"
  by (simp add: emptyOnFailure_def)

lemma portsLoop_lookup:
  assumes "RetrieveImage X' = emptyOnFailure (RetrieveImage X)"
  shows "portsLoop X' children ports w = portsLoop X children ports w"
proof (induction children arbitrary: ports w)
  case Nil
  show ?case by simp
next
  case (Cons n ns)
  show ?case
    by (simp add: Cons.IH assms emptyOnFailure_cases
        split: option.splits prod.splits sum.splits)
qed

lemma portsLoop_emptyOnFailure:
  "portsLoop (X\<lparr>RetrieveImage := emptyOnFailure (RetrieveImage X)\<rparr>) children ports w =
   portsLoop X children ports w"
  by (rule portsLoop_lookup) simp

lemma portsLoop_returns:
  "\<forall>v\<in>set children. Value v = from_instr \<longrightarrow> Next v \<noteq> None \<Longrightarrow>
     \<exists>ports' w'. portsLoop X children ports w = (Return ports', w')"
proof (induction children arbitrary: ports w)
  case Nil
  show ?case by simp
next
  case (Cons n ns)
  then have ih: "\<And>ports w. \<exists>ports' w'. portsLoop X ns ports w = (Return ports', w')"
    by simp
  show ?case
  proof (cases "Value n = from_instr")
    case False
    then show ?thesis using ih by simp
  next
    case True
    with Cons.prems obtain n1 where n1: "Next n = Some n1" by auto
    show ?thesis
    proof (cases "ToLower (Value n1) = ''scratch''")
      case True
      with \<open>Value n = from_instr\<close> n1 ih show ?thesis by simp
    next
      case False
      obtain res w1 where r: "RetrieveImage X w (Value n1) = (res, w1)"
        by (cases "RetrieveImage X w (Value n1)")
      with \<open>Value n = from_instr\<close> n1 False ih show ?thesis
        by (cases res) simp_all
    qed
  qed
qed

text \<open>
  C7. A base image whose lookup fails counts as an image without triggers and without
  ports: both \<open>GetDockerfileDependencies\<close> and \<open>PortsFromDockerfile\<close> return
  what they return when every failed lookup is replaced by the success with the empty
  configuration. The walk goes on after the failure: once the stream is parsed,
  \<open>PortsFromDockerfile\<close> returns a port list and no error, whatever the lookups do
  (every FROM instruction having its base argument).
\<close>

theorem lookup_failure_not_fatal:
  "GetDockerfileDependencies (X\<lparr>RetrieveImage := emptyOnFailure (RetrieveImage X)\<rparr>)
      dockerfilePath workspace w =
     GetDockerfileDependencies X dockerfilePath workspace w \<and>
   PortsFromDockerfile (X\<lparr>RetrieveImage := emptyOnFailure (RetrieveImage X)\<rparr>) r w =
     PortsFromDockerfile X r w \<and>
   (parse X r = Inr children \<and>
      (\<forall>v\<in>set children. Value v = from_instr \<longrightarrow> Next v \<noteq> None) \<longrightarrow>
      (\<exists>ports w'. PortsFromDockerfile X r w = (Return (Inr ports), w')))"
proof (intro conjI impI)
  show "GetDockerfileDependencies (X\<lparr>RetrieveImage := emptyOnFailure (RetrieveImage X)\<rparr>)
      dockerfilePath workspace w =
     GetDockerfileDependencies X dockerfilePath workspace w"
    by (simp add: GetDockerfileDependencies_def collectOnbuilds_emptyOnFailure
        dispatchAll_RetrieveImage finishDependencies_RetrieveImage
        cong: sum.case_cong go.case_cong prod.case_cong)
next
  show "PortsFromDockerfile (X\<lparr>RetrieveImage := emptyOnFailure (RetrieveImage X)\<rparr>) r w =
     PortsFromDockerfile X r w"
    by (simp add: PortsFromDockerfile_def portsLoop_emptyOnFailure cong: sum.case_cong)
next
  assume a: "parse X r = Inr children \<and>
      (\<forall>v\<in>set children. Value v = from_instr \<longrightarrow> Next v \<noteq> None)"
  then obtain ports' w' where "portsLoop X children [] w = (Return ports', w')"
    using portsLoop_returns [of children X "[]" w] by blast
  with a show "\<exists>ports w'. PortsFromDockerfile X r w = (Return (Inr ports), w')"
    by (simp add: PortsFromDockerfile_def)
qed

theorem lookup_failure_not_fatal_witness:
  "RetrieveImage (stubCollaborators stubParse) 0 ''base'' =
     (Inl (ExternalError ''no such image''), 1) \<and>
   PortsFromDockerfile (stubCollaborators stubParse) ''Dockerfile'' 0 =
     (Return (Inr [''8080'']), 1) \<and>
   GetDockerfileDependencies (stubCollaborators stubParse) ''Dockerfile'' ''/ws'' 0 =
     (Return (Inr [''/ws/Dockerfile'', ''/ws/app.go'']), 1)"
proof -
  let ?X = "stubCollaborators stubParse"
  let ?children = "[instruction from_instr [''base''] [], instruction env [''B'', ''2''] [],
      instruction copy [''app.go'', ''/app/''] [], instruction expose [''8080''] []]"
  have h: "parse ?X ''Dockerfile'' = Inr ?children \<and>
      (\<forall>v\<in>set ?children. Value v = from_instr \<longrightarrow> Next v \<noteq> None)"
    by (simp add: stubCollaborators_def stubParse_def instruction_def)
  have ex: "\<exists>ports w'. PortsFromDockerfile ?X ''Dockerfile'' 0 = (Return (Inr ports), w')"
    using h lookup_failure_not_fatal [where X = ?X and r = "''Dockerfile''"
        and children = ?children and w = 0, THEN conjunct2, THEN conjunct2]
    by blast
  have l: "RetrieveImage ?X 0 ''base'' = (Inl (ExternalError ''no such image''), 1)"
    by (simp add: stubCollaborators_def)
  have p: "PortsFromDockerfile ?X ''Dockerfile'' 0 = (Return (Inr [''8080'']), 1)"
    by code_simp
  have d: "GetDockerfileDependencies ?X ''Dockerfile'' ''/ws'' 0 =
      (Return (Inr [''/ws/Dockerfile'', ''/ws/app.go'']), 1)"
    by code_simp
  show ?thesis using ex l p d by simp
qed

section \<open>The image cache is read through and never invalidated\<close>

lemma retrieveImage_stores:
  "retrieveImage P img w = (Inr cfg, w1) \<Longrightarrow> imageCache w1 img = Some cfg"
  by (auto simp: retrieveImage_def split: option.splits prod.splits sum.splits)

lemma retrieveImage_hit:
  "imageCache w img = Some cfg \<Longrightarrow> retrieveImage P img w = (Inr cfg, w)"
  by (simp add: retrieveImage_def)

lemma retrieveImage_keeps:
  "imageCache w img = Some cfg \<Longrightarrow>
     imageCache (snd (retrieveImage P other w)) img = Some cfg"
  by (auto simp: retrieveImage_def split: option.splits prod.splits sum.splits)

lemma retrieveImage_counted:
  assumes "imageCache w img = None"
    and "retrieveImage (counted Q) img w = (Inr cfg, w1)"
  shows "snd (outside w1) = Suc (snd (outside w))"
  using assms
  by (auto simp: retrieveImage_def counted_def retrieveLocalImage_def
      retrieveRemoteConfig_def split: option.splits prod.splits sum.splits)

text \<open>
  C6. When \<open>retrieveImage\<close> succeeds for an image reference, the descriptor it
  returns is in the cache; the next call for the same reference returns this descriptor
  and leaves the whole state, the outside included, as it is; and no later lookup, of
  whatever reference, removes or changes the entry. With providers instrumented with a
  call counter, starting without an entry for the reference, the counter is one higher
  after the first call and unchanged by the second: two resolutions, one lookup.
\<close>

theorem image_cache_hit:
  "(retrieveImage P img w = (Inr cfg, w1) \<longrightarrow>
      imageCache w1 img = Some cfg \<and>
      retrieveImage P img w1 = (Inr cfg, w1) \<and>
      (\<forall>other. imageCache (snd (retrieveImage P other w1)) img = Some cfg)) \<and>
   (imageCache w0 img = None \<and> retrieveImage (counted Q) img w0 = (Inr cfg', w2) \<longrightarrow>
      snd (outside w2) = Suc (snd (outside w0)) \<and>
      retrieveImage (counted Q) img w2 = (Inr cfg', w2))"
proof (intro conjI impI allI)
  assume a: "retrieveImage P img w = (Inr cfg, w1)"
  show c: "imageCache w1 img = Some cfg" using a by (rule retrieveImage_stores)
  show "retrieveImage P img w1 = (Inr cfg, w1)" using c by (rule retrieveImage_hit)
  fix other
  show "imageCache (snd (retrieveImage P other w1)) img = Some cfg"
    using c by (rule retrieveImage_keeps)
next
  assume a: "imageCache w0 img = None \<and> retrieveImage (counted Q) img w0 = (Inr cfg', w2)"
  then show "snd (outside w2) = Suc (snd (outside w0))"
    using retrieveImage_counted by blast
  from a have "imageCache w2 img = Some cfg'" using retrieveImage_stores by blast
  then show "retrieveImage (counted Q) img w2 = (Inr cfg', w2)" by (rule retrieveImage_hit)
qed

theorem image_cache_hit_witness:
  "imageCache \<lparr>imageCache = Map.empty, outside = ((), 0::nat)\<rparr> ''base'' = None \<and>
   retrieveImage (counted stubProviders) ''base''
     \<lparr>imageCache = Map.empty, outside = ((), 0)\<rparr> =
     (Inr \<lparr>ExposedPorts = [''8080/tcp''], OnBuild = [''COPY trigger.txt /x'']\<rparr>,
      \<lparr>imageCache =
         [''base'' \<mapsto> \<lparr>ExposedPorts = [''8080/tcp''], OnBuild = [''COPY trigger.txt /x'']\<rparr>],
       outside = ((), 1)\<rparr>) \<and>
   retrieveImage (counted stubProviders) ''base''
     \<lparr>imageCache =
         [''base'' \<mapsto> \<lparr>ExposedPorts = [''8080/tcp''], OnBuild = [''COPY trigger.txt /x'']\<rparr>],
       outside = ((), 1)\<rparr> =
     (Inr \<lparr>ExposedPorts = [''8080/tcp''], OnBuild = [''COPY trigger.txt /x'']\<rparr>,
      \<lparr>imageCache =
         [''base'' \<mapsto> \<lparr>ExposedPorts = [''8080/tcp''], OnBuild = [''COPY trigger.txt /x'']\<rparr>],
       outside = ((), 1)\<rparr>)"
proof -
  let ?cfg = "\<lparr>ExposedPorts = [''8080/tcp''], OnBuild = [''COPY trigger.txt /x'']\<rparr>"
  let ?w0 = "\<lparr>imageCache = Map.empty, outside = ((), 0::nat)\<rparr>"
  let ?w2 = "\<lparr>imageCache = [''base'' \<mapsto> ?cfg], outside = ((), 1::nat)\<rparr>"
  have h: "imageCache ?w0 ''base'' = None \<and>
      retrieveImage (counted stubProviders) ''base'' ?w0 = (Inr ?cfg, ?w2)"
    by (simp add: retrieveImage_def counted_def stubProviders_def retrieveLocalImage_def)
  have c: "snd (outside ?w2) = Suc (snd (outside ?w0)) \<and>
      retrieveImage (counted stubProviders) ''base'' ?w2 = (Inr ?cfg, ?w2)"
    using h image_cache_hit [where Q = stubProviders and img = "''base''" and ?w0.0 = ?w0
        and cfg' = ?cfg and ?w2.0 = ?w2 and P = "counted stubProviders" and w = ?w0
        and cfg = ?cfg and ?w1.0 = ?w2, THEN conjunct2]
    by blast
  show ?thesis using h c by simp
qed

end
